theory Spec2Isabelle
  imports Main "HOL-Library.Word"
begin

unbundle bit_operations_syntax

section \<open>The go6 object-file reader (debug/go6/reader.go)\<close>

text \<open>
  A shallow embedding of \<^verbatim>\<open>Reader.ReadProg\<close>, \<^verbatim>\<open>Reader.ReadAddr\<close> and
  \<^verbatim>\<open>Reader.ReadSym\<close>. The buffered input is the list of bytes still unread; a
  read past its end fails the way \<^verbatim>\<open>bufio.Reader\<close> and \<^verbatim>\<open>io.ReadFull\<close> do on a
  stream that ends. Every method takes the reader and returns it updated. Go's \<^verbatim>\<open>int\<close>
  is taken to be 64 bits wide, so \<^verbatim>\<open>int(line)\<close> of a \<^verbatim>\<open>uint32\<close> is its unsigned value.
\<close>

subsection \<open>Bytes, strings and errors\<close>

type_synonym byte = "8 word"

definition string_of_bytes :: "byte list \<Rightarrow> string" where
  "string_of_bytes bs = map (\<lambda>b. char_of (unat b)) bs"

definition bytes_of_string :: "string \<Rightarrow> byte list" where
  "bytes_of_string s = map of_char s"

text \<open>
  The values of Go's \<^verbatim>\<open>error\<close> interface that the reader can produce: the two
  sentinels of package \<^verbatim>\<open>io\<close>, \<^verbatim>\<open>errOpOutOfRange\<close> (an \<^verbatim>\<open>int\<close>), and
  \<^verbatim>\<open>*errIO\<close> with its fields \<^verbatim>\<open>When\<close> and \<^verbatim>\<open>Err\<close>. A \<^verbatim>\<open>nil\<close> error is \<open>None\<close>.
\<close>

datatype error =
    EOF
  | ErrUnexpectedEOF
  | errOpOutOfRange int
  | errIO (When: string) (Err: "error option")

subsection \<open>Library reads on a stream that ends\<close>

text \<open>\<^verbatim>\<open>bufio.Reader.ReadByte\<close>: the next byte, or 0 and \<^verbatim>\<open>io.EOF\<close>.\<close>

fun ReadByte :: "byte list \<Rightarrow> byte \<times> error option \<times> byte list" where
  "ReadByte [] = (0, Some EOF, [])"
| "ReadByte (b # s) = (b, None, s)"

text \<open>
  \<^verbatim>\<open>io.ReadFull\<close> into a zeroed buffer of \<open>n\<close> bytes: the buffer after the call, the
  error, and the rest of the stream. A short read leaves the tail of the buffer zero and
  is \<^verbatim>\<open>io.EOF\<close> when nothing was read, \<^verbatim>\<open>io.ErrUnexpectedEOF\<close> otherwise.
\<close>

definition ReadFull :: "nat \<Rightarrow> byte list \<Rightarrow> byte list \<times> error option \<times> byte list" where
  "ReadFull n s =
     (if n \<le> length s then (take n s, None, drop n s)
      else (s @ replicate (n - length s) 0,
            Some (if s = [] then EOF else ErrUnexpectedEOF), []))"

text \<open>
  \<^verbatim>\<open>bufio.Reader.ReadString(delim)\<close>: the bytes up to and including the first
  \<open>delim\<close>; when the stream ends first, what was read and \<^verbatim>\<open>io.EOF\<close>.
\<close>

definition ReadString :: "byte \<Rightarrow> byte list \<Rightarrow> byte list \<times> error option \<times> byte list" where
  "ReadString delim s =
     (if delim \<in> set s
      then (takeWhile (\<lambda>b. b \<noteq> delim) s @ [delim], None, tl (dropWhile (\<lambda>b. b \<noteq> delim) s))
      else (s, Some EOF, []))"

text \<open>\<^verbatim>\<open>binary.LittleEndian.Uint16\<close>, \<^verbatim>\<open>Uint32\<close> and \<^verbatim>\<open>Uint64\<close> of a full buffer.\<close>

definition Uint16 :: "byte list \<Rightarrow> 16 word" where
  "Uint16 b = ucast (b ! 0) OR push_bit 8 (ucast (b ! 1))"

definition Uint32 :: "byte list \<Rightarrow> 32 word" where
  "Uint32 b = ucast (b ! 0) OR push_bit 8 (ucast (b ! 1)) OR push_bit 16 (ucast (b ! 2))
              OR push_bit 24 (ucast (b ! 3))"

definition Uint64 :: "byte list \<Rightarrow> 64 word" where
  "Uint64 b = ucast (b ! 0) OR push_bit 8 (ucast (b ! 1)) OR push_bit 16 (ucast (b ! 2))
              OR push_bit 24 (ucast (b ! 3)) OR push_bit 32 (ucast (b ! 4))
              OR push_bit 40 (ucast (b ! 5)) OR push_bit 48 (ucast (b ! 6))
              OR push_bit 56 (ucast (b ! 7))"

text \<open>
  \<^verbatim>\<open>read2\<close>, \<^verbatim>\<open>read4\<close>, \<^verbatim>\<open>read8\<close>: the value of the buffer is returned also when
  the read fell short.
\<close>

definition read2 :: "byte list \<Rightarrow> 16 word \<times> error option \<times> byte list" where
  "read2 s = (case ReadFull 2 s of (buf, err, s') \<Rightarrow> (Uint16 buf, err, s'))"

definition read4 :: "byte list \<Rightarrow> 32 word \<times> error option \<times> byte list" where
  "read4 s = (case ReadFull 4 s of (buf, err, s') \<Rightarrow> (Uint32 buf, err, s'))"

definition read8 :: "byte list \<Rightarrow> 64 word \<times> error option \<times> byte list" where
  "read8 s = (case ReadFull 8 s of (buf, err, s') \<Rightarrow> (Uint64 buf, err, s'))"

subsection \<open>Declarations the reader uses\<close>

text \<open>
  The opcode, operand-kind and flag constants (\<^verbatim>\<open>AXXX\<close>, \<^verbatim>\<open>D_FILE\<close>, \<^verbatim>\<open>T_OFFSET\<close>,
  ...) and the size \<^verbatim>\<open>NSNAME\<close> of \<^verbatim>\<open>Addr.StringVal\<close> are declared outside reader.go.
  They are a parameter of the model: opcodes are compared with a \<^verbatim>\<open>uint16\<close>, symbol
  kinds and flags with a \<^verbatim>\<open>byte\<close>, and \<^verbatim>\<open>D_NONE\<close>, \<^verbatim>\<open>D_FCONST\<close>, \<^verbatim>\<open>D_SCONST\<close> are
  stored in \<^verbatim>\<open>int\<close> fields.
\<close>

record constants =
  AXXX :: "16 word"
  ANAME :: "16 word"
  ASIGNAME :: "16 word"
  AHISTORY :: "16 word"
  ALAST :: "16 word"
  D_NONE :: int
  D_EXTERN :: byte
  D_STATIC :: byte
  D_FILE :: byte
  D_FCONST :: int
  D_SCONST :: int
  T_TYPE :: byte
  T_INDEX :: byte
  T_OFFSET :: byte
  T_FCONST :: byte
  T_SYM :: byte
  T_SCONST :: byte
  T_64 :: byte
  T_GOTYPE :: byte
  NSNAME :: nat

text \<open>The fields of \<^verbatim>\<open>Addr\<close> and \<^verbatim>\<open>Prog\<close> that reader.go assigns.\<close>

record Addr =
  Type :: int
  Index :: int
  Scale :: int
  Offset :: "64 word"
  Sym :: string
  FloatIEEE :: "64 word"
  StringVal :: "byte list"
  GoType :: string

text \<open>Go's zero value of \<^verbatim>\<open>Addr\<close>.\<close>

definition Addr_zero :: "constants \<Rightarrow> Addr" where
  "Addr_zero c = \<lparr>Type = 0, Index = 0, Scale = 0, Offset = 0, Sym = [], FloatIEEE = 0,
                  StringVal = replicate (NSNAME c) 0, GoType = []\<rparr>"

text \<open>
  \<^verbatim>\<open>Prog.Pos\<close> is \<open>None\<close> while it has its zero value and \<open>Some\<close> of the result of
  \<^verbatim>\<open>FileSet.Position\<close> once assigned.
\<close>

record 'pos Prog =
  Op :: int
  Line :: int
  Pos :: "'pos option"
  Name :: string
  From :: Addr
  To :: Addr

definition Prog_zero :: "constants \<Rightarrow> 'pos Prog" where
  "Prog_zero c = \<lparr>Op = 0, Line = 0, Pos = None, Name = [], From = Addr_zero c,
                  To = Addr_zero c\<rparr>"

text \<open>
  \<^verbatim>\<open>goobj.FileSet\<close> belongs to another package. Its state is the sequence of
  \<^verbatim>\<open>Enter\<close> and \<^verbatim>\<open>Exit\<close> calls made on it so far, and \<^verbatim>\<open>Position\<close> is a parameter of
  \<^verbatim>\<open>ReadProg\<close>: some function of that sequence and the line.
\<close>

datatype fset_call = Enter string int | Exit int

subsection \<open>The reader\<close>

record Reader =
  rd :: "byte list"
  syms :: "byte \<Rightarrow> string"
  fset :: "fset_call list"
  fnamebuf :: "string list"
  fname :: string
  fstart :: int
  imports_map :: "int \<rightharpoonup> string"

definition NewReader :: "byte list \<Rightarrow> Reader" where
  "NewReader r = \<lparr>rd = r, syms = (\<lambda>_. []), fset = [], fnamebuf = [], fname = [],
                  fstart = 0, imports_map = Map.empty\<rparr>"

definition Files :: "Reader \<Rightarrow> fset_call list \<times> (int \<rightharpoonup> string)" where
  "Files r = (fset r, imports_map r)"

definition ReadSym :: "Reader \<Rightarrow> string \<times> error option \<times> Reader" where
  "ReadSym r = (case ReadByte (rd r) of (b, err, s) \<Rightarrow> (syms r b, err, r\<lparr>rd := s\<rparr>))"

subsection \<open>ReadAddr\<close>

text \<open>
  The state between two statements of \<^verbatim>\<open>ReadAddr\<close> is the operand \<open>a\<close>, the variable
  \<open>err\<close> and the reader. Each \<^verbatim>\<open>if\<close> block of the method is one step on that state.
\<close>

type_synonym addr_state = "Addr \<times> error option \<times> Reader"

definition addr_index :: "constants \<Rightarrow> byte \<Rightarrow> addr_state \<Rightarrow> addr_state" where
  "addr_index c tag st =
     (case st of (a, err, r) \<Rightarrow>
        if tag AND T_INDEX c \<noteq> 0 then
          (case ReadByte (rd r) of (index, err, s) \<Rightarrow>
           case ReadByte s of (scale, err, s) \<Rightarrow>
             (a\<lparr>Index := uint index, Scale := uint scale\<rparr>, err, r\<lparr>rd := s\<rparr>))
        else st)"

definition addr_offset :: "constants \<Rightarrow> byte \<Rightarrow> addr_state \<Rightarrow> addr_state" where
  "addr_offset c tag st =
     (case st of (a, err, r) \<Rightarrow>
        if tag AND T_OFFSET c \<noteq> 0 then
          if tag AND T_64 c \<noteq> 0 then
            (case read8 (rd r) of (o64, e, s) \<Rightarrow> (a\<lparr>Offset := o64\<rparr>, e, r\<lparr>rd := s\<rparr>))
          else
            (case read4 (rd r) of (o32, e, s) \<Rightarrow> (a\<lparr>Offset := scast o32\<rparr>, e, r\<lparr>rd := s\<rparr>))
        else st)"

definition addr_sym :: "constants \<Rightarrow> byte \<Rightarrow> addr_state \<Rightarrow> addr_state" where
  "addr_sym c tag st =
     (case st of (a, err, r) \<Rightarrow>
        if tag AND T_SYM c \<noteq> 0 then
          (case ReadSym r of (nm, err, r) \<Rightarrow> (a\<lparr>Sym := nm\<rparr>, err, r))
        else st)"

definition addr_const :: "constants \<Rightarrow> byte \<Rightarrow> addr_state \<Rightarrow> addr_state" where
  "addr_const c tag st =
     (case st of (a, err, r) \<Rightarrow>
        if tag AND T_FCONST c \<noteq> 0 then
          (case read8 (rd r) of (f, err, s) \<Rightarrow>
             (a\<lparr>Type := D_FCONST c, FloatIEEE := f\<rparr>, err, r\<lparr>rd := s\<rparr>))
        else if tag AND T_SCONST c \<noteq> 0 then
          (case ReadFull (NSNAME c) (rd r) of (buf, err, s) \<Rightarrow>
             (a\<lparr>Type := D_SCONST c, StringVal := buf\<rparr>, err, r\<lparr>rd := s\<rparr>))
        else st)"

definition addr_type :: "constants \<Rightarrow> byte \<Rightarrow> addr_state \<Rightarrow> addr_state" where
  "addr_type c tag st =
     (case st of (a, err, r) \<Rightarrow>
        if tag AND T_TYPE c \<noteq> 0 then
          (case ReadByte (rd r) of (typ, err, s) \<Rightarrow> (a\<lparr>Type := uint typ\<rparr>, err, r\<lparr>rd := s\<rparr>))
        else st)"

definition addr_gotype :: "constants \<Rightarrow> byte \<Rightarrow> addr_state \<Rightarrow> addr_state" where
  "addr_gotype c tag st =
     (case st of (a, err, r) \<Rightarrow>
        if tag AND T_GOTYPE c \<noteq> 0 then
          (case ReadSym r of (nm, err, r) \<Rightarrow> (a\<lparr>GoType := nm\<rparr>, err, r))
        else st)"

definition ReadAddr :: "constants \<Rightarrow> Reader \<Rightarrow> addr_state" where
  "ReadAddr c r =
     (let a = (Addr_zero c)\<lparr>Type := D_NONE c, Index := D_NONE c, Scale := 0\<rparr> in
      case ReadByte (rd r) of (tag, err, s) \<Rightarrow>
      case addr_sym c tag (addr_offset c tag (addr_index c tag (a, err, r\<lparr>rd := s\<rparr>))) of
        (a, err, r) \<Rightarrow>
          if err \<noteq> None then (a, err, r)
          else addr_gotype c tag (addr_type c tag (addr_const c tag (a, err, r))))"

subsection \<open>Joining the file name fragments\<close>

text \<open>
  \<^verbatim>\<open>filepath.Join\<close> and \<^verbatim>\<open>filepath.Clean\<close> of Go's standard library, with \<^verbatim>\<open>/\<close> as
  the separator and no volume names. \<open>clean_loop\<close> is the loop of \<^verbatim>\<open>Clean\<close>: the first
  list is the unread part of the path, \<open>out\<close> the bytes written so far and \<open>dotdot\<close>
  the index where backtracking over \<^verbatim>\<open>..\<close> must stop. \<open>backtrack\<close> is the inner
  loop that moves the write index \<open>w\<close> back to the last separator, and
  \<open>strings_Join\<close> is \<^verbatim>\<open>strings.Join\<close>.
\<close>

fun strings_Join :: "string list \<Rightarrow> string \<Rightarrow> string" where
  "strings_Join [] sep = []"
| "strings_Join [x] sep = x"
| "strings_Join (x # y # ys) sep = x @ sep @ strings_Join (y # ys) sep"

fun backtrack :: "string \<Rightarrow> nat \<Rightarrow> nat \<Rightarrow> nat" where
  "backtrack out dotdot 0 = 0"
| "backtrack out dotdot (Suc w) =
     (if Suc w > dotdot \<and> out ! Suc w \<noteq> CHR ''/'' then backtrack out dotdot w else Suc w)"

function clean_loop :: "bool \<Rightarrow> string \<Rightarrow> string \<Rightarrow> nat \<Rightarrow> string" where
  "clean_loop rooted [] out dotdot = out"
| "clean_loop rooted (ch # p) out dotdot =
     (if ch = CHR ''/'' then clean_loop rooted p out dotdot
      else if ch = CHR ''.'' \<and> (p = [] \<or> hd p = CHR ''/'') then clean_loop rooted p out dotdot
      else if ch = CHR ''.'' \<and> hd p = CHR ''.'' \<and> (tl p = [] \<or> hd (tl p) = CHR ''/'') then
        (if length out > dotdot then
           clean_loop rooted (tl p) (take (backtrack out dotdot (length out - 1)) out) dotdot
         else if \<not> rooted then
           clean_loop rooted (tl p) ((if length out > 0 then out @ ''/'' else out) @ ''..'')
             (length ((if length out > 0 then out @ ''/'' else out) @ ''..''))
         else clean_loop rooted (tl p) out dotdot)
      else
        clean_loop rooted (dropWhile (\<lambda>x. x \<noteq> CHR ''/'') p)
          ((if rooted \<and> length out \<noteq> 1 \<or> \<not> rooted \<and> length out \<noteq> 0 then out @ ''/'' else out)
             @ ch # takeWhile (\<lambda>x. x \<noteq> CHR ''/'') p)
          dotdot)"
  by pat_completeness auto
termination
proof (relation "measure (\<lambda>(rooted, p, out, dotdot). length p)")
  fix rooted :: bool and ch :: char and p out :: string and dotdot :: nat
  have "length (dropWhile (\<lambda>x. x \<noteq> CHR ''/'') p) \<le> length p"
    by (rule length_dropWhile_le)
  then show "((rooted, dropWhile (\<lambda>x. x \<noteq> CHR ''/'') p,
               (if rooted \<and> length out \<noteq> 1 \<or> \<not> rooted \<and> length out \<noteq> 0 then out @ ''/'' else out)
                 @ ch # takeWhile (\<lambda>x. x \<noteq> CHR ''/'') p, dotdot),
              (rooted, ch # p, out, dotdot))
             \<in> measure (\<lambda>(rooted, p, out, dotdot). length p)"
    by simp
qed (auto simp: less_Suc_eq_le)

definition Clean :: "string \<Rightarrow> string" where
  "Clean path =
     (if path = [] then ''.''
      else let rooted = (hd path = CHR ''/'');
               out = (if rooted then clean_loop rooted (tl path) ''/'' 1
                      else clean_loop rooted path [] 0)
           in if out = [] then ''.'' else out)"

fun Join :: "string list \<Rightarrow> string" where
  "Join [] = []"
| "Join (e # es) = (if e \<noteq> [] then Clean (strings_Join (e # es) ''/'') else Join es)"


subsection \<open>ReadProg\<close>

text \<open>
  A call of \<^verbatim>\<open>ReadProg\<close> either returns its two results, leaving the reader in a new
  state, or panics (the slice expression \<^verbatim>\<open>name[1:]\<close> is out of range on an empty
  string).
\<close>

datatype 'pos outcome =
    Returns (result: "'pos Prog") (failure: "error option") (state: Reader)
  | Panics (state: Reader)

text \<open>The case \<^verbatim>\<open>ANAME, ASIGNAME\<close> of the first switch.\<close>

definition ReadName :: "constants \<Rightarrow> 16 word \<Rightarrow> Reader \<Rightarrow> 'pos outcome" where
  "ReadName c op r =
     (case (if op = ASIGNAME c then read4 (rd r) else (0, None, rd r)) of (sig, err, s) \<Rightarrow>
      if err \<noteq> None then Returns (Prog_zero c) (Some (errIO ''SIGNAME op'' err)) (r\<lparr>rd := s\<rparr>)
      else
        case ReadByte s of (typ, err1, s) \<Rightarrow>
        case ReadByte s of (symb, err2, s) \<Rightarrow>
        case ReadString 0 s of (bname, err, s) \<Rightarrow>
        let r = r\<lparr>rd := s\<rparr> in
        if err1 \<noteq> None then Returns (Prog_zero c) (Some (errIO ''symbol type'' err)) r
        else if err2 \<noteq> None then Returns (Prog_zero c) (Some (errIO ''symbol id'' err)) r
        else if err \<noteq> None then Returns (Prog_zero c) (Some (errIO ''symbol value'' err)) r
        else
          let name = string_of_bytes (butlast bname);
              r = r\<lparr>syms := (syms r)(symb := name)\<rparr>;
              p = (Prog_zero c)\<lparr>Op := uint op, Name := name\<rparr>
          in if typ = D_EXTERN c \<or> typ = D_STATIC c then Returns p None r
             else if typ = D_FILE c then
               (if name = [] then Panics r
                else Returns p None (r\<lparr>fnamebuf := fnamebuf r @ [tl name]\<rparr>))
             else Returns p None r)"

text \<open>
  The common instruction data and the second switch. The local variable \<^verbatim>\<open>fname\<close> of
  the case \<^verbatim>\<open>AHISTORY\<close> is \<open>joined\<close> here; \<open>fname r\<close> is the field \<^verbatim>\<open>r.fname\<close>.
\<close>

definition ReadInstr ::
    "constants \<Rightarrow> (fset_call list \<Rightarrow> int \<Rightarrow> 'pos) \<Rightarrow> 16 word \<Rightarrow> Reader \<Rightarrow> 'pos outcome" where
  "ReadInstr c Position op r =
     (case read4 (rd r) of (line, err, s) \<Rightarrow>
      case ReadAddr c (r\<lparr>rd := s\<rparr>) of (from, err1, r) \<Rightarrow>
      case ReadAddr c r of (to, err2, r) \<Rightarrow>
      if err \<noteq> None then Returns (Prog_zero c) (Some (errIO ''line number'' err)) r
      else if err1 \<noteq> None then Returns (Prog_zero c) (Some (errIO ''from address'' err)) r
      else if err2 \<noteq> None then Returns (Prog_zero c) (Some (errIO ''to address'' err)) r
      else
        let p = (Prog_zero c)\<lparr>Op := uint op, Line := uint line, From := from, To := to\<rparr> in
        if op = AHISTORY c then
          let joined = Join (fnamebuf r);
              r = r\<lparr>fnamebuf := []\<rparr>
          in if Offset (To p) = - 1 then
               Returns p None (r\<lparr>imports_map := (imports_map r)(uint line \<mapsto> joined)\<rparr>)
             else if fname r \<noteq> [] then
               Returns p None (r\<lparr>fset := fset r @ [Enter (fname r) (uint line)]\<rparr>)
             else Returns p None (r\<lparr>fset := fset r @ [Exit (uint line)]\<rparr>)
        else if Line p \<noteq> 0 then
          Returns (p\<lparr>Pos := Some (Position (fset r) (uint line))\<rparr>) None r
        else Returns p None r)"

definition ReadProg ::
    "constants \<Rightarrow> (fset_call list \<Rightarrow> int \<Rightarrow> 'pos) \<Rightarrow> Reader \<Rightarrow> 'pos outcome" where
  "ReadProg c Position r =
     (case read2 (rd r) of (op, err, s) \<Rightarrow>
      let r = r\<lparr>rd := s\<rparr> in
      if err \<noteq> None then Returns (Prog_zero c) err r
      else if op \<le> AXXX c \<or> op \<ge> ALAST c then
        Returns (Prog_zero c) (Some (errOpOutOfRange (uint op))) r
      else if op = ANAME c \<or> op = ASIGNAME c then ReadName c op r
      else ReadInstr c Position op r)"

subsection \<open>Concrete parameters for running the model\<close>

text \<open>
  One assignment of the constants: the eight flag bits are the eight bits of the flag
  byte, \<^verbatim>\<open>NSNAME\<close> is 8, and the opcodes and symbol kinds are pairwise distinct, with
  \<^verbatim>\<open>AXXX\<close> the least and \<^verbatim>\<open>ALAST\<close> the greatest opcode.
\<close>

definition sample_constants :: constants where
  "sample_constants =
     \<lparr>AXXX = 0, ANAME = 1, ASIGNAME = 2, AHISTORY = 3, ALAST = 10, D_NONE = 67,
      D_EXTERN = 70, D_STATIC = 71, D_FILE = 77, D_FCONST = 74, D_SCONST = 75,
      T_TYPE = 1, T_INDEX = 2, T_OFFSET = 4, T_FCONST = 8, T_SYM = 16, T_SCONST = 32,
      T_64 = 64, T_GOTYPE = 128, NSNAME = 8\<rparr>"

text \<open>A \<^verbatim>\<open>Position\<close> that answers with the calls made so far and the line asked for.\<close>

definition sample_Position :: "fset_call list \<Rightarrow> int \<Rightarrow> fset_call list \<times> int" where
  "sample_Position calls line = (calls, line)"



section \<open>Properties\<close>

subsection \<open>Bytes and strings\<close>

lemma char_of_unat_of_char: "char_of (unat (of_char ch :: byte)) = ch"
proof -
  have "(of_char ch :: byte) = of_nat (of_char ch)"
    by (simp add: of_nat_of_char)
  then have "unat (of_char ch :: byte) = take_bit 8 (of_char ch :: nat)"
    by (simp add: unat_of_nat take_bit_eq_mod)
  then show ?thesis
    by (simp add: char_of_take_bit_eq)
qed

lemma string_of_bytes_of_string [simp]: "string_of_bytes (bytes_of_string s) = s"
  by (induction s) (simp_all add: string_of_bytes_def bytes_of_string_def char_of_unat_of_char)

lemma ReadString_terminated:
  "delim \<notin> set bs \<Longrightarrow> ReadString delim (bs @ delim # rest) = (bs @ [delim], None, rest)"
  by (induction bs) (auto simp: ReadString_def)

lemma ReadFull_exact: "length bs = n \<Longrightarrow> ReadFull n (bs @ rest) = (bs, None, rest)"
  by (simp add: ReadFull_def)

subsection \<open>ReadAddr changes nothing of the reader but its input\<close>

lemma addr_index_frame:
  "addr_index c tag (a, e, r) = (a', e', r') \<Longrightarrow> r' = r\<lparr>rd := rd r'\<rparr>"
  by (auto simp: addr_index_def split: prod.splits if_splits)

lemma addr_offset_frame:
  "addr_offset c tag (a, e, r) = (a', e', r') \<Longrightarrow> r' = r\<lparr>rd := rd r'\<rparr>"
  by (auto simp: addr_offset_def split: prod.splits if_splits)

lemma addr_sym_frame:
  "addr_sym c tag (a, e, r) = (a', e', r') \<Longrightarrow> r' = r\<lparr>rd := rd r'\<rparr>"
  by (auto simp: addr_sym_def ReadSym_def split: prod.splits if_splits)

lemma addr_const_frame:
  "addr_const c tag (a, e, r) = (a', e', r') \<Longrightarrow> r' = r\<lparr>rd := rd r'\<rparr>"
  by (auto simp: addr_const_def split: prod.splits if_splits)

lemma addr_type_frame:
  "addr_type c tag (a, e, r) = (a', e', r') \<Longrightarrow> r' = r\<lparr>rd := rd r'\<rparr>"
  by (auto simp: addr_type_def split: prod.splits if_splits)

lemma addr_gotype_frame:
  "addr_gotype c tag (a, e, r) = (a', e', r') \<Longrightarrow> r' = r\<lparr>rd := rd r'\<rparr>"
  by (auto simp: addr_gotype_def ReadSym_def split: prod.splits if_splits)

lemma ReadAddr_frame:
  assumes "ReadAddr c r = (a, e, r')"
  shows "r' = r\<lparr>rd := rd r'\<rparr>"
proof -
  obtain tag e0 s where rb: "ReadByte (rd r) = (tag, e0, s)"
    by (cases "ReadByte (rd r)") auto
  let ?a0 = "(Addr_zero c)\<lparr>Type := D_NONE c, Index := D_NONE c, Scale := 0\<rparr>"
  obtain a1 e1 r1 where s1: "addr_index c tag (?a0, e0, r\<lparr>rd := s\<rparr>) = (a1, e1, r1)"
    by (cases "addr_index c tag (?a0, e0, r\<lparr>rd := s\<rparr>)") auto
  obtain a2 e2 r2 where s2: "addr_offset c tag (a1, e1, r1) = (a2, e2, r2)"
    by (cases "addr_offset c tag (a1, e1, r1)") auto
  obtain a3 e3 r3 where s3: "addr_sym c tag (a2, e2, r2) = (a3, e3, r3)"
    by (cases "addr_sym c tag (a2, e2, r2)") auto
  obtain a4 e4 r4 where s4: "addr_const c tag (a3, e3, r3) = (a4, e4, r4)"
    by (cases "addr_const c tag (a3, e3, r3)") auto
  obtain a5 e5 r5 where s5: "addr_type c tag (a4, e4, r4) = (a5, e5, r5)"
    by (cases "addr_type c tag (a4, e4, r4)") auto
  obtain a6 e6 r6 where s6: "addr_gotype c tag (a5, e5, r5) = (a6, e6, r6)"
    by (cases "addr_gotype c tag (a5, e5, r5)") auto
  have f1: "r1 = r\<lparr>rd := rd r1\<rparr>"
    using addr_index_frame [OF s1] by simp
  have f3: "r3 = r\<lparr>rd := rd r3\<rparr>"
    using addr_offset_frame [OF s2] addr_sym_frame [OF s3] f1
    by (metis Reader.update_convs(1) Reader.surjective)
  have f6: "r6 = r\<lparr>rd := rd r6\<rparr>"
    using addr_const_frame [OF s4] addr_type_frame [OF s5] addr_gotype_frame [OF s6] f3
    by (metis Reader.update_convs(1) Reader.surjective)
  have "r' = r3 \<or> r' = r6"
    using assms rb s1 s2 s3 s4 s5 s6 by (auto simp: ReadAddr_def Let_def split: if_splits)
  with f3 f6 show ?thesis by auto
qed

subsection \<open>Little-endian values\<close>

text \<open>The value of \<^verbatim>\<open>Uint16\<close>, \<^verbatim>\<open>Uint32\<close> and \<^verbatim>\<open>Uint64\<close>: byte \<open>i\<close> weighs \<open>2 ^ (8 * i)\<close>.\<close>

lemma uint_ucast_byte:
  fixes b :: byte
  assumes "8 \<le> LENGTH('a::len)"
  shows "uint (ucast b :: 'a word) = uint b"
  by (rule uint_up_ucast) (simp add: is_up assms)

lemma uint_byte_shift:
  fixes b :: byte
  assumes "n + 8 \<le> LENGTH('a::len)"
  shows "uint (push_bit n (ucast b :: 'a word)) = 2 ^ n * uint b"
proof -
  have "8 \<le> LENGTH('a)" using assms by simp
  then have "uint (push_bit n (ucast b :: 'a word)) = take_bit LENGTH('a) (push_bit n (uint b))"
    by (simp add: unsigned_push_bit_eq uint_ucast_byte) 
  also have "\<dots> = push_bit n (uint b)"
  proof (rule take_bit_int_eq_self)
    show "0 \<le> push_bit n (uint b)" by simp
    have "uint b < 2 ^ 8" using uint_lt2p [of b] by simp
    then have "push_bit n (uint b) < 2 ^ n * 2 ^ 8"
      by (simp add: push_bit_eq_mult)
    also have "\<dots> = (2::int) ^ (n + 8)"
      by (simp only: power_add)
    also have "\<dots> \<le> 2 ^ LENGTH('a)"
      using assms by (intro power_increasing) simp_all
    finally show "push_bit n (uint b) < 2 ^ LENGTH('a)" .
  qed
  finally show ?thesis by (simp add: push_bit_eq_mult)
qed

lemma or_shifted_byte:
  fixes x :: int and b :: byte
  assumes "0 \<le> x" "x < 2 ^ n"
  shows "x OR 2 ^ n * uint b = x + 2 ^ n * uint b"
proof (rule disjunctive_add [symmetric])
  fix k
  show "\<not> bit x k \<or> \<not> bit (2 ^ n * uint b) k"
  proof (cases "k < n")
    case True
    have "\<not> bit (push_bit n (uint b)) k" using True by (simp add: bit_push_bit_iff)
    moreover have "push_bit n (uint b) = 2 ^ n * uint b" by (simp add: push_bit_eq_mult)
    ultimately show ?thesis by simp
  next
    case False
    have "take_bit n x = x" using assms by (simp add: take_bit_int_eq_self)
    then have "bit x k \<longleftrightarrow> bit (take_bit n x) k" by simp
    with False show ?thesis by (simp add: bit_take_bit_iff)
  qed
qed

lemma Uint16_value: "uint (Uint16 [b0, b1]) = uint b0 + 2 ^ 8 * uint b1"
proof -
  have "uint b0 < 2 ^ 8" using uint_lt2p [of b0] by simp
  then show ?thesis
    using uint_byte_shift [of 8 b1, where 'a = 16]  or_shifted_byte [of "uint b0" 8 b1]
  by (simp add: Uint16_def uint_or uint_ucast_byte)
qed

lemma Uint32_value:
  "uint (Uint32 [b0, b1, b2, b3]) =
     uint b0 + 2 ^ 8 * uint b1 + 2 ^ 16 * uint b2 + 2 ^ 24 * uint b3"
proof -
  have b: "uint b0 < 2 ^ 8" "uint b1 < 2 ^ 8" "uint b2 < 2 ^ 8"
    using uint_lt2p [of b0] uint_lt2p [of b1] uint_lt2p [of b2] by simp_all
  have 1: "uint b0 OR 2 ^ 8 * uint b1 = uint b0 + 2 ^ 8 * uint b1"
    using b by (intro or_shifted_byte) simp_all
  have 2: "(uint b0 + 2 ^ 8 * uint b1) OR 2 ^ 16 * uint b2 = uint b0 + 2 ^ 8 * uint b1 + 2 ^ 16 * uint b2"
    using b by (intro or_shifted_byte) simp_all
  have 3: "(uint b0 + 2 ^ 8 * uint b1 + 2 ^ 16 * uint b2) OR 2 ^ 24 * uint b3
           = uint b0 + 2 ^ 8 * uint b1 + 2 ^ 16 * uint b2 + 2 ^ 24 * uint b3"
    using b by (intro or_shifted_byte) simp_all
  show ?thesis
    using uint_byte_shift [of 8 b1, where 'a = 32] uint_byte_shift [of 16 b2, where 'a = 32]
      uint_byte_shift [of 24 b3, where 'a = 32] 1 2 3
    by (simp add: Uint32_def uint_or uint_ucast_byte flip: or.assoc)
qed

lemma Uint64_value:
  "uint (Uint64 [b0, b1, b2, b3, b4, b5, b6, b7]) =
     uint b0 + 2 ^ 8 * uint b1 + 2 ^ 16 * uint b2 + 2 ^ 24 * uint b3
       + 2 ^ 32 * uint b4 + 2 ^ 40 * uint b5 + 2 ^ 48 * uint b6 + 2 ^ 56 * uint b7"
proof -
  have b: "uint b0 < 2 ^ 8" "uint b1 < 2 ^ 8" "uint b2 < 2 ^ 8" "uint b3 < 2 ^ 8"
    "uint b4 < 2 ^ 8" "uint b5 < 2 ^ 8" "uint b6 < 2 ^ 8"
    using uint_lt2p [of b0] uint_lt2p [of b1] uint_lt2p [of b2] uint_lt2p [of b3]
      uint_lt2p [of b4] uint_lt2p [of b5] uint_lt2p [of b6] by simp_all
  define x1 where "x1 = uint b0 + 2 ^ 8 * uint b1"
  define x2 where "x2 = x1 + 2 ^ 16 * uint b2"
  define x3 where "x3 = x2 + 2 ^ 24 * uint b3"
  define x4 where "x4 = x3 + 2 ^ 32 * uint b4"
  define x5 where "x5 = x4 + 2 ^ 40 * uint b5"
  define x6 where "x6 = x5 + 2 ^ 48 * uint b6"
  have 1: "uint b0 OR 2 ^ 8 * uint b1 = x1"
    unfolding x1_def using b by (intro or_shifted_byte) simp_all
  have 2: "x1 OR 2 ^ 16 * uint b2 = x2"
    unfolding x2_def x1_def using b by (intro or_shifted_byte) simp_all
  have 3: "x2 OR 2 ^ 24 * uint b3 = x3"
    unfolding x3_def x2_def x1_def using b by (intro or_shifted_byte) simp_all
  have 4: "x3 OR 2 ^ 32 * uint b4 = x4"
    unfolding x4_def x3_def x2_def x1_def using b by (intro or_shifted_byte) simp_all
  have 5: "x4 OR 2 ^ 40 * uint b5 = x5"
    unfolding x5_def x4_def x3_def x2_def x1_def using b by (intro or_shifted_byte) simp_all
  have 6: "x5 OR 2 ^ 48 * uint b6 = x6"
    unfolding x6_def x5_def x4_def x3_def x2_def x1_def using b by (intro or_shifted_byte) simp_all
  have 7: "x6 OR 2 ^ 56 * uint b7 = x6 + 2 ^ 56 * uint b7"
    unfolding x6_def x5_def x4_def x3_def x2_def x1_def using b by (intro or_shifted_byte) simp_all
  have "uint (Uint64 [b0, b1, b2, b3, b4, b5, b6, b7]) =
     ((((((uint b0 OR 2 ^ 8 * uint b1) OR 2 ^ 16 * uint b2) OR 2 ^ 24 * uint b3)
       OR 2 ^ 32 * uint b4) OR 2 ^ 40 * uint b5) OR 2 ^ 48 * uint b6) OR 2 ^ 56 * uint b7"
    using uint_byte_shift [of 8 b1, where 'a = 64] uint_byte_shift [of 16 b2, where 'a = 64]
      uint_byte_shift [of 24 b3, where 'a = 64] uint_byte_shift [of 32 b4, where 'a = 64]
      uint_byte_shift [of 40 b5, where 'a = 64] uint_byte_shift [of 48 b6, where 'a = 64]
      uint_byte_shift [of 56 b7, where 'a = 64]
    by (simp add: Uint64_def uint_or uint_ucast_byte flip: or.assoc)
  also have "\<dots> = x6 + 2 ^ 56 * uint b7"
    by (simp only: 1 2 3 4 5 6 7)
  finally show ?thesis
    by (simp add: x6_def x5_def x4_def x3_def x2_def x1_def)
qed

text \<open>The definitions that running the model on a concrete stream unfolds.\<close>

lemmas run_defs = ReadProg_def ReadName_def ReadInstr_def ReadAddr_def ReadSym_def
  addr_index_def addr_offset_def addr_sym_def addr_const_def addr_type_def addr_gotype_def
  read2_def read4_def read8_def ReadFull_def ReadString_def Uint16_def Uint32_def Uint64_def
  NewReader_def sample_constants_def sample_Position_def Prog_zero_def Addr_zero_def
  bytes_of_string_def Clean_def Let_def

subsection \<open>Name declarations\<close>

text \<open>
  A name declaration whose string is terminated: after the optional signature \<open>sg\<close>
  come the kind \<open>typ\<close>, the handle \<open>h\<close>, the bytes \<open>nm\<close> of the name and a NUL.
\<close>

lemma ReadName_terminated:
  assumes "rd r = sg @ typ # h # nm @ 0 # rest"
    and "length sg = (if op = ASIGNAME c then 4 else 0)"
    and "0 \<notin> set nm"
  shows "(ReadName c op r :: 'pos outcome) =
     (let name = string_of_bytes nm;
          r' = r\<lparr>rd := rest, syms := (syms r)(h := name)\<rparr>;
          p = (Prog_zero c)\<lparr>Op := uint op, Name := name\<rparr>
      in if typ = D_EXTERN c \<or> typ = D_STATIC c then Returns p None r'
         else if typ = D_FILE c then
           (if name = [] then Panics r'
            else Returns p None (r'\<lparr>fnamebuf := fnamebuf r @ [tl name]\<rparr>))
         else Returns p None r')"
proof -
  have sig: "(if op = ASIGNAME c then read4 (rd r) else (0, None, rd r))
             = (if op = ASIGNAME c then Uint32 sg else 0, None, typ # h # nm @ 0 # rest)"
    using assms(1,2) by (auto simp: read4_def ReadFull_exact)
  have str: "ReadString 0 (nm @ 0 # rest) = (nm @ [0], None, rest)"
    using assms(3) by (rule ReadString_terminated)
  show ?thesis
    unfolding ReadName_def sig by (simp add: str Let_def)
qed

lemma ReadProg_dispatch_name:
  assumes "rd r = b0 # b1 # s"
    and "op = Uint16 [b0, b1]"
    and "AXXX c < op" and "op < ALAST c"
    and "op = ANAME c \<or> op = ASIGNAME c"
  shows "ReadProg c Position r = ReadName c op (r\<lparr>rd := s\<rparr>)"
  using assms by (auto simp: ReadProg_def read2_def ReadFull_def Let_def)

lemma ReadProg_dispatch_instr:
  assumes "rd r = b0 # b1 # s"
    and "op = Uint16 [b0, b1]"
    and "AXXX c < op" and "op < ALAST c"
    and "op \<noteq> ANAME c" and "op \<noteq> ASIGNAME c"
  shows "ReadProg c Position r = ReadInstr c Position op (r\<lparr>rd := s\<rparr>)"
  using assms by (auto simp: ReadProg_def read2_def ReadFull_def Let_def)

subsection \<open>Opcodes out of range\<close>

text \<open>
  Claim C6. When the two opcode bytes decode, little-endian, to a value \<open>op\<close> with
  \<open>op \<le> AXXX\<close> or \<open>op \<ge> ALAST\<close>, \<^verbatim>\<open>ReadProg\<close> returns the error
  \<^verbatim>\<open>errOpOutOfRange(op)\<close> with a zero \<^verbatim>\<open>Prog\<close>, and the reader afterwards differs from
  the reader before only in that exactly those two bytes are consumed.
\<close>

theorem ReadProg_opcode_out_of_range:
  assumes "rd r = b0 # b1 # rest"
    and "op = Uint16 [b0, b1]"
    and "op \<le> AXXX c \<or> ALAST c \<le> op"
  shows "ReadProg c Position r =
           Returns (Prog_zero c) (Some (errOpOutOfRange (uint op))) (r\<lparr>rd := rest\<rparr>)"
  using assms by (auto simp: ReadProg_def read2_def ReadFull_def Let_def)

theorem ReadProg_opcode_out_of_range_witness:
  "rd (NewReader [0, 0, 7]) = 0 # 0 # [7] \<and> (0 :: 16 word) = Uint16 [0, 0]
   \<and> (0 :: 16 word) \<le> AXXX sample_constants
   \<and> ReadProg sample_constants sample_Position (NewReader [0, 0, 7]) =
       Returns (Prog_zero sample_constants) (Some (errOpOutOfRange 0)) (NewReader [7])
   \<and> rd (NewReader [1, 1, 7]) = 1 # 1 # [7] \<and> (257 :: 16 word) = Uint16 [1, 1]
   \<and> ALAST sample_constants \<le> (257 :: 16 word)
   \<and> ReadProg sample_constants sample_Position (NewReader [1, 1, 7]) =
       Returns (Prog_zero sample_constants) (Some (errOpOutOfRange 257)) (NewReader [7])"
  using ReadProg_opcode_out_of_range
          [of "NewReader [0, 0, 7]" 0 0 "[7]" 0 sample_constants sample_Position]
        ReadProg_opcode_out_of_range
          [of "NewReader [1, 1, 7]" 1 1 "[7]" 257 sample_constants sample_Position]
  by (simp add: NewReader_def Uint16_def sample_constants_def)

subsection \<open>File markers\<close>

text \<open>
  Claim C3. A name declaration of kind \<^verbatim>\<open>D_FILE\<close> whose name is empty (the NUL comes
  right after the handle) makes \<^verbatim>\<open>ReadProg\<close> panic at \<^verbatim>\<open>name[1:]\<close>: the call returns
  neither a \<^verbatim>\<open>Prog\<close> nor an error. The handle's slot has been overwritten by then.
\<close>

theorem ReadProg_file_marker_empty_name_panics:
  assumes "rd r = b0 # b1 # sg @ D_FILE c # h # 0 # rest"
    and "op = Uint16 [b0, b1]"
    and "AXXX c < op" and "op < ALAST c"
    and "op = ANAME c \<or> op = ASIGNAME c"
    and "length sg = (if op = ASIGNAME c then 4 else 0)"
    and "D_FILE c \<noteq> D_EXTERN c" and "D_FILE c \<noteq> D_STATIC c"
  shows "ReadProg c Position r = Panics (r\<lparr>rd := rest, syms := (syms r)(h := [])\<rparr>)"
proof -
  have "ReadProg c Position r = ReadName c op (r\<lparr>rd := sg @ D_FILE c # h # 0 # rest\<rparr>)"
    using assms(1-5) by (rule ReadProg_dispatch_name)
  also have "\<dots> = Panics (r\<lparr>rd := rest, syms := (syms r)(h := [])\<rparr>)"
    using ReadName_terminated [of "r\<lparr>rd := sg @ D_FILE c # h # 0 # rest\<rparr>" sg "D_FILE c" h "[]" rest op c]
      assms(6-8)
    by (simp add: string_of_bytes_def)
  finally show ?thesis .
qed

theorem ReadProg_file_marker_empty_name_panics_witness:
  "rd (NewReader [1, 0, 77, 3, 0, 9]) = 1 # 0 # [] @ D_FILE sample_constants # 3 # 0 # [9]
   \<and> (1 :: 16 word) = Uint16 [1, 0]
   \<and> AXXX sample_constants < 1 \<and> 1 < ALAST sample_constants \<and> 1 = ANAME sample_constants
   \<and> length ([] :: byte list) = (if (1 :: 16 word) = ASIGNAME sample_constants then 4 else 0)
   \<and> D_FILE sample_constants \<noteq> D_EXTERN sample_constants
   \<and> D_FILE sample_constants \<noteq> D_STATIC sample_constants
   \<and> ReadProg sample_constants sample_Position (NewReader [1, 0, 77, 3, 0, 9]) =
       Panics ((NewReader [9])\<lparr>syms := (syms (NewReader [9]))(3 := [])\<rparr>)"
  using ReadProg_file_marker_empty_name_panics
          [of "NewReader [1, 0, 77, 3, 0, 9]" 1 0 "[]" sample_constants 3 "[9]" 1 sample_Position]
  by (simp add: NewReader_def Uint16_def sample_constants_def)

text \<open>
  Claim C2 as stated fails: the name of a file marker is registered in the symbol table
  like any other name. Here handle 3 holds nothing before and \<^verbatim>\<open>/main.go\<close> after the
  declaration.
\<close>

theorem file_marker_is_registered_counterexample:
  "syms (state (ReadProg sample_constants sample_Position
      (NewReader ([1, 0, 77, 3] @ bytes_of_string ''/main.go'' @ [0])))) 3 = ''/main.go''
   \<and> syms (state (ReadProg sample_constants sample_Position
      (NewReader ([1, 0, 77, 3] @ bytes_of_string ''/main.go'' @ [0])))) 3
     \<noteq> syms (NewReader ([1, 0, 77, 3] @ bytes_of_string ''/main.go'' @ [0])) 3"
  by (simp add: run_defs) code_simp

text \<open>
  Claim C2, amended. For a name declaration of kind \<^verbatim>\<open>D_FILE\<close> with a non-empty name,
  \<^verbatim>\<open>ReadProg\<close> stores the whole name in the slot of its handle, as for every other name,
  and in addition appends the name without its first character to \<^verbatim>\<open>fnamebuf\<close>; it
  returns the opcode and the whole name.
\<close>

theorem ReadProg_file_marker_registers_and_appends:
  assumes "rd r = b0 # b1 # sg @ D_FILE c # h # nm @ 0 # rest"
    and "op = Uint16 [b0, b1]"
    and "AXXX c < op" and "op < ALAST c"
    and "op = ANAME c \<or> op = ASIGNAME c"
    and "length sg = (if op = ASIGNAME c then 4 else 0)"
    and "D_FILE c \<noteq> D_EXTERN c" and "D_FILE c \<noteq> D_STATIC c"
    and "0 \<notin> set nm" and "nm \<noteq> []"
  shows "ReadProg c Position r =
           Returns ((Prog_zero c)\<lparr>Op := uint op, Name := string_of_bytes nm\<rparr>) None
             (r\<lparr>rd := rest, syms := (syms r)(h := string_of_bytes nm),
                fnamebuf := fnamebuf r @ [tl (string_of_bytes nm)]\<rparr>)"
proof -
  have "ReadProg c Position r = ReadName c op (r\<lparr>rd := sg @ D_FILE c # h # nm @ 0 # rest\<rparr>)"
    using assms(1-5) by (rule ReadProg_dispatch_name)
  also have "\<dots> = Returns ((Prog_zero c)\<lparr>Op := uint op, Name := string_of_bytes nm\<rparr>) None
             (r\<lparr>rd := rest, syms := (syms r)(h := string_of_bytes nm),
                fnamebuf := fnamebuf r @ [tl (string_of_bytes nm)]\<rparr>)"
    using ReadName_terminated [of "r\<lparr>rd := sg @ D_FILE c # h # nm @ 0 # rest\<rparr>" sg "D_FILE c" h nm rest op c]
      assms(6-10)
    by (simp add: string_of_bytes_def Let_def)
  finally show ?thesis .
qed

theorem ReadProg_file_marker_registers_and_appends_witness:
  "rd (NewReader ([2, 0, 9, 9, 9, 9, 77, 3] @ bytes_of_string ''/main.go'' @ [0, 5]))
     = 2 # 0 # [9, 9, 9, 9] @ D_FILE sample_constants # 3 # bytes_of_string ''/main.go'' @ 0 # [5]
   \<and> (2 :: 16 word) = Uint16 [2, 0]
   \<and> AXXX sample_constants < 2 \<and> 2 < ALAST sample_constants \<and> 2 = ASIGNAME sample_constants
   \<and> length [9, 9, 9, 9 :: byte] = (if (2 :: 16 word) = ASIGNAME sample_constants then 4 else 0)
   \<and> D_FILE sample_constants \<noteq> D_EXTERN sample_constants
   \<and> D_FILE sample_constants \<noteq> D_STATIC sample_constants
   \<and> 0 \<notin> set (bytes_of_string ''/main.go'') \<and> bytes_of_string ''/main.go'' \<noteq> []
   \<and> ReadProg sample_constants sample_Position
        (NewReader ([2, 0, 9, 9, 9, 9, 77, 3] @ bytes_of_string ''/main.go'' @ [0, 5])) =
       Returns ((Prog_zero sample_constants)\<lparr>Op := 2, Name := ''/main.go''\<rparr>) None
         ((NewReader [5])\<lparr>syms := (syms (NewReader [5]))(3 := ''/main.go''),
                           fnamebuf := [''main.go'']\<rparr>)"
proof -
  let ?nm = "bytes_of_string ''/main.go''"
  let ?r = "NewReader ([2, 0, 9, 9, 9, 9, 77, 3] @ ?nm @ [0, 5])"
  have h1: "rd ?r = 2 # 0 # [9, 9, 9, 9] @ D_FILE sample_constants # 3 # ?nm @ 0 # [5]"
    by (simp add: NewReader_def sample_constants_def)
  have h2: "(2 :: 16 word) = Uint16 [2, 0]"
    by (simp add: Uint16_def)
  have h3: "AXXX sample_constants < 2" "2 < ALAST sample_constants"
    "2 = ANAME sample_constants \<or> 2 = ASIGNAME sample_constants"
    "2 = ASIGNAME sample_constants"
    "length [9, 9, 9, 9 :: byte] = (if (2 :: 16 word) = ASIGNAME sample_constants then 4 else 0)"
    "D_FILE sample_constants \<noteq> D_EXTERN sample_constants"
    "D_FILE sample_constants \<noteq> D_STATIC sample_constants"
    by (simp_all add: sample_constants_def)
  have nz: "0 \<notin> set ?nm" and ne: "?nm \<noteq> []"
    by (simp_all add: bytes_of_string_def)
  have "ReadProg sample_constants sample_Position ?r =
       Returns ((Prog_zero sample_constants)\<lparr>Op := 2, Name := ''/main.go''\<rparr>) None
         ((NewReader [5])\<lparr>syms := (syms (NewReader [5]))(3 := ''/main.go''),
                           fnamebuf := [''main.go'']\<rparr>)"
    using ReadProg_file_marker_registers_and_appends
            [OF h1 h2 h3(1) h3(2) h3(3) h3(5) h3(6) h3(7) nz ne, of sample_Position]
    by (simp add: NewReader_def)
  with h1 h2 h3 nz ne show ?thesis by blast
qed

subsection \<open>The offset of an operand\<close>

lemma addr_sym_Offset: "Offset (fst (addr_sym c tag st)) = Offset (fst st)"
  by (cases st) (simp add: addr_sym_def split: prod.splits)

lemma addr_const_Offset: "Offset (fst (addr_const c tag st)) = Offset (fst st)"
  by (cases st) (simp add: addr_const_def split: prod.splits)

lemma addr_type_Offset: "Offset (fst (addr_type c tag st)) = Offset (fst st)"
  by (cases st) (simp add: addr_type_def split: prod.splits)

lemma addr_gotype_Offset: "Offset (fst (addr_gotype c tag st)) = Offset (fst st)"
  by (cases st) (simp add: addr_gotype_def split: prod.splits)

lemma ReadAddr_Offset:
  assumes "rd r = tag # s"
  shows "Offset (fst (ReadAddr c r)) =
         Offset (fst (addr_offset c tag (addr_index c tag
           ((Addr_zero c)\<lparr>Type := D_NONE c, Index := D_NONE c, Scale := 0\<rparr>, None, r\<lparr>rd := s\<rparr>))))"
proof -
  let ?st2 = "addr_offset c tag (addr_index c tag
           ((Addr_zero c)\<lparr>Type := D_NONE c, Index := D_NONE c, Scale := 0\<rparr>, None, r\<lparr>rd := s\<rparr>))"
  obtain a3 e3 r3 where st3: "addr_sym c tag ?st2 = (a3, e3, r3)"
    by (cases "addr_sym c tag ?st2") auto
  have a3: "Offset a3 = Offset (fst ?st2)"
    using addr_sym_Offset [of c tag ?st2] st3 by simp
  have "ReadAddr c r = (if e3 \<noteq> None then (a3, e3, r3)
          else addr_gotype c tag (addr_type c tag (addr_const c tag (a3, e3, r3))))"
    using assms st3 by (simp add: ReadAddr_def Let_def)
  then show ?thesis
    using a3 by (simp add: addr_const_Offset addr_type_Offset addr_gotype_Offset)
qed

lemma addr_index_consumes:
  assumes "length idx = (if tag AND T_INDEX c \<noteq> 0 then 2 else 0)"
  shows "\<exists>a'. addr_index c tag (a, None, r\<lparr>rd := idx @ s\<rparr>) = (a', None, r\<lparr>rd := s\<rparr>)
              \<and> Offset a' = Offset a"
proof (cases "tag AND T_INDEX c \<noteq> 0")
  case True
  with assms obtain i sc where "idx = [i, sc]"
    by (cases idx; cases "tl idx") auto
  with True show ?thesis by (simp add: addr_index_def)
next
  case False
  with assms show ?thesis by (simp add: addr_index_def)
qed

lemma sint_scast_32_64: "sint (scast (w :: 32 word) :: 64 word) = sint w"
  by (rule sint_up_scast) (simp add: is_up)

text \<open>
  Claim C7. With the offset flag set, the 8 bytes \<open>bs\<close> after the optional index and
  scale are read little-endian into the 64-bit offset when the 64-bit flag is set;
  otherwise the 4 bytes \<open>bs\<close> are read little-endian and sign-extended, so the offset
  has the signed value of the 32-bit word. \<^verbatim>\<open>FF FF FF FF\<close> gives \<open>-1\<close> and
  \<^verbatim>\<open>01 00 00 00 00 00 00 00\<close> gives \<open>1\<close>. This holds whatever the later fields do.
\<close>

theorem ReadAddr_offset_decoding:
  assumes "tag AND T_OFFSET c \<noteq> 0"
    and "rd r = tag # idx @ bs @ rest"
    and "length idx = (if tag AND T_INDEX c \<noteq> 0 then 2 else 0)"
    and "length bs = (if tag AND T_64 c \<noteq> 0 then 8 else 4)"
  shows "Offset (fst (ReadAddr c r)) =
           (if tag AND T_64 c \<noteq> 0 then Uint64 bs else scast (Uint32 bs))
       \<and> sint (Offset (fst (ReadAddr c r))) =
           (if tag AND T_64 c \<noteq> 0 then sint (Uint64 bs) else sint (Uint32 bs))
       \<and> (bs = [255, 255, 255, 255] \<longrightarrow> sint (Offset (fst (ReadAddr c r))) = - 1)
       \<and> (bs = [1, 0, 0, 0, 0, 0, 0, 0] \<longrightarrow> sint (Offset (fst (ReadAddr c r))) = 1)"
proof -
  let ?a0 = "(Addr_zero c)\<lparr>Type := D_NONE c, Index := D_NONE c, Scale := 0\<rparr>"
  obtain a1 where a1:
    "addr_index c tag (?a0, None, r\<lparr>rd := idx @ bs @ rest\<rparr>) = (a1, None, r\<lparr>rd := bs @ rest\<rparr>)"
    using addr_index_consumes [OF assms(3)] by blast
  have off: "Offset (fst (ReadAddr c r)) = Offset (fst (addr_offset c tag (a1, None, r\<lparr>rd := bs @ rest\<rparr>)))"
    using ReadAddr_Offset [OF assms(2), of c] a1 by simp
  have main: "Offset (fst (ReadAddr c r)) =
           (if tag AND T_64 c \<noteq> 0 then Uint64 bs else scast (Uint32 bs))"
  proof (cases "tag AND T_64 c \<noteq> 0")
    case True
    then have "length bs = 8" using assms(4) by simp
    then have "read8 (bs @ rest) = (Uint64 bs, None, rest)"
      by (simp add: read8_def ReadFull_exact)
    with True assms(1) show ?thesis by (simp add: off addr_offset_def)
  next
    case False
    then have "length bs = 4" using assms(4) by simp
    then have "read4 (bs @ rest) = (Uint32 bs, None, rest)"
      by (simp add: read4_def ReadFull_exact)
    with False assms(1) show ?thesis by (simp add: off addr_offset_def)
  qed
  have signed: "sint (Offset (fst (ReadAddr c r))) =
           (if tag AND T_64 c \<noteq> 0 then sint (Uint64 bs) else sint (Uint32 bs))"
    by (simp add: main sint_scast_32_64)
  have ex1: "sint (Offset (fst (ReadAddr c r))) = - 1" if "bs = [255, 255, 255, 255]"
  proof -
    from that assms(4) have "tag AND T_64 c = 0" by (auto split: if_splits)
    with that show ?thesis by (simp add: main Uint32_def)
  qed
  have ex2: "sint (Offset (fst (ReadAddr c r))) = 1" if "bs = [1, 0, 0, 0, 0, 0, 0, 0]"
  proof -
    from that assms(4) have "tag AND T_64 c \<noteq> 0" by (auto split: if_splits)
    with that show ?thesis by (simp add: main Uint64_def)
  qed
  from main signed ex1 ex2 show ?thesis by blast
qed

theorem ReadAddr_offset_decoding_witness:
  "(4 :: byte) AND T_OFFSET sample_constants \<noteq> 0
   \<and> rd (NewReader [4, 255, 255, 255, 255, 9]) = 4 # [] @ [255, 255, 255, 255] @ [9]
   \<and> length ([] :: byte list) = (if (4 :: byte) AND T_INDEX sample_constants \<noteq> 0 then 2 else 0)
   \<and> length [255, 255, 255, 255 :: byte] = (if (4 :: byte) AND T_64 sample_constants \<noteq> 0 then 8 else 4)
   \<and> sint (Offset (fst (ReadAddr sample_constants (NewReader [4, 255, 255, 255, 255, 9])))) = - 1
   \<and> (70 :: byte) AND T_OFFSET sample_constants \<noteq> 0
   \<and> rd (NewReader [70, 3, 2, 1, 0, 0, 0, 0, 0, 0, 0, 9]) = 70 # [3, 2] @ [1, 0, 0, 0, 0, 0, 0, 0] @ [9]
   \<and> length [3, 2 :: byte] = (if (70 :: byte) AND T_INDEX sample_constants \<noteq> 0 then 2 else 0)
   \<and> length [1, 0, 0, 0, 0, 0, 0, 0 :: byte] = (if (70 :: byte) AND T_64 sample_constants \<noteq> 0 then 8 else 4)
   \<and> sint (Offset (fst (ReadAddr sample_constants (NewReader [70, 3, 2, 1, 0, 0, 0, 0, 0, 0, 0, 9])))) = 1"
  using ReadAddr_offset_decoding
          [of 4 sample_constants "NewReader [4, 255, 255, 255, 255, 9]" "[]" "[255, 255, 255, 255]" "[9]"]
        ReadAddr_offset_decoding
          [of 70 sample_constants "NewReader [70, 3, 2, 1, 0, 0, 0, 0, 0, 0, 0, 9]" "[3, 2]"
              "[1, 0, 0, 0, 0, 0, 0, 0]" "[9]"]
  by (simp add: NewReader_def sample_constants_def Uint32_def Uint64_def)

subsection \<open>History records\<close>

text \<open>
  A history record whose line and two operands decode without error: \<open>a_from\<close> and
  \<open>a_to\<close> are the operands and \<open>r2\<close> the reader after them.
\<close>

lemma ReadInstr_history:
  assumes "rd r = l0 # l1 # l2 # l3 # s"
    and "ReadAddr c (r\<lparr>rd := s\<rparr>) = (a_from, None, r1)"
    and "ReadAddr c r1 = (a_to, None, r2)"
    and "line = uint (Uint32 [l0, l1, l2, l3])"
    and "p = (Prog_zero c)\<lparr>Op := uint (AHISTORY c), Line := line, From := a_from, To := a_to\<rparr>"
  shows "ReadInstr c Position (AHISTORY c) r =
     (if Offset a_to = - 1 then
        Returns p None (r\<lparr>rd := rd r2, fnamebuf := [],
                          imports_map := (imports_map r)(line \<mapsto> Join (fnamebuf r))\<rparr>)
      else if fname r \<noteq> [] then
        Returns p None (r\<lparr>rd := rd r2, fnamebuf := [], fset := fset r @ [Enter (fname r) line]\<rparr>)
      else Returns p None (r\<lparr>rd := rd r2, fnamebuf := [], fset := fset r @ [Exit line]\<rparr>))"
proof -
  have l: "read4 (rd r) = (Uint32 [l0, l1, l2, l3], None, s)"
    using assms(1) by (simp add: read4_def ReadFull_def)
  have "r1 = r\<lparr>rd := s\<rparr>\<lparr>rd := rd r1\<rparr>"
    using assms(2) by (rule ReadAddr_frame)
  moreover have "r2 = r1\<lparr>rd := rd r2\<rparr>"
    using assms(3) by (rule ReadAddr_frame)
  ultimately have r2: "r2 = r\<lparr>rd := rd r2\<rparr>"
    by (metis Reader.update_convs(1) Reader.surjective)
  have f: "fnamebuf r2 = fnamebuf r" "fname r2 = fname r" "fset r2 = fset r"
    "imports_map r2 = imports_map r"
    by (subst r2, simp)+
  have u: "r2\<lparr>fnamebuf := []\<rparr> = r\<lparr>rd := rd r2, fnamebuf := []\<rparr>"
    by (subst r2) simp
  show ?thesis
    unfolding ReadInstr_def l using assms(2-5)
    by (simp add: Let_def f u)
qed

lemma string_of_bytes_Nil [simp]: "string_of_bytes [] = []"
  by (simp add: string_of_bytes_def)

lemma ReadProg_name_record:
  assumes "rd r = b0 # b1 # sg @ typ # h # nm @ 0 # rest"
    and "op = Uint16 [b0, b1]"
    and "AXXX c < op" and "op < ALAST c"
    and "op = ANAME c \<or> op = ASIGNAME c"
    and "length sg = (if op = ASIGNAME c then 4 else 0)"
    and "0 \<notin> set nm"
  shows "(ReadProg c Position r :: 'pos outcome) =
     (let name = string_of_bytes nm;
          r' = r\<lparr>rd := rest, syms := (syms r)(h := name)\<rparr>;
          p = (Prog_zero c)\<lparr>Op := uint op, Name := name\<rparr>
      in if typ = D_EXTERN c \<or> typ = D_STATIC c then Returns p None r'
         else if typ = D_FILE c then
           (if name = [] then Panics r'
            else Returns p None (r'\<lparr>fnamebuf := fnamebuf r @ [tl name]\<rparr>))
         else Returns p None r')"
proof -
  have "ReadProg c Position r = ReadName c op (r\<lparr>rd := sg @ typ # h # nm @ 0 # rest\<rparr>)"
    using assms(1-5) by (rule ReadProg_dispatch_name)
  then show ?thesis
    using ReadName_terminated [of "r\<lparr>rd := sg @ typ # h # nm @ 0 # rest\<rparr>" sg "typ" h nm rest op c]
      assms(6,7)
    by (simp add: Let_def split del: if_split cong del: if_weak_cong)
qed

lemma ReadProg_fmt_marker:
  "ReadProg sample_constants sample_Position
     (NewReader ([1, 0, 77, 3] @ bytes_of_string ''/fmt'' @ 0 # s)) =
   Returns ((Prog_zero sample_constants)\<lparr>Op := 1, Name := ''/fmt''\<rparr>) None
     ((NewReader s)\<lparr>syms := (\<lambda>_. [])(3 := ''/fmt''), fnamebuf := [''fmt'']\<rparr>)"
proof -
  have "0 \<notin> set (bytes_of_string ''/fmt'')"
    by (simp add: bytes_of_string_def)
  then show ?thesis
    using ReadProg_name_record [of "NewReader ([1, 0, 77, 3] @ bytes_of_string ''/fmt'' @ 0 # s)"
        1 0 "[]" 77 3 "bytes_of_string ''/fmt''" s 1 sample_constants sample_Position]
    by (simp add: NewReader_def sample_constants_def Uint16_def Let_def)
qed

text \<open>
  Claim C8. For a history record whose \<^verbatim>\<open>to\<close> operand has offset \<open>-1\<close>, \<^verbatim>\<open>ReadProg\<close>
  stores the joined file name in \<^verbatim>\<open>imports\<close> under the record's line and leaves the
  calls made on the file set as they were; whatever the offset, \<^verbatim>\<open>fnamebuf\<close> is empty
  afterwards. After the file marker \<^verbatim>\<open>/fmt\<close>, a history record of line 5 with offset
  \<open>-1\<close> leaves \<^verbatim>\<open>imports\<close> as \<open>{5: ''fmt''}\<close>.
\<close>

theorem ReadProg_history_import:
  assumes "rd r = b0 # b1 # l0 # l1 # l2 # l3 # s"
    and "AHISTORY c = Uint16 [b0, b1]"
    and "AXXX c < AHISTORY c" and "AHISTORY c < ALAST c"
    and "AHISTORY c \<noteq> ANAME c" and "AHISTORY c \<noteq> ASIGNAME c"
    and "ReadAddr c (r\<lparr>rd := s\<rparr>) = (a_from, None, r1)"
    and "ReadAddr c r1 = (a_to, None, r2)"
    and "line = uint (Uint32 [l0, l1, l2, l3])"
  shows "(Offset a_to = - 1 \<longrightarrow>
            ReadProg c Position r =
              Returns ((Prog_zero c)\<lparr>Op := uint (AHISTORY c), Line := line,
                                      From := a_from, To := a_to\<rparr>) None
                (r\<lparr>rd := rd r2, fnamebuf := [],
                   imports_map := (imports_map r)(line \<mapsto> Join (fnamebuf r))\<rparr>))
       \<and> (Offset a_to = - 1 \<longrightarrow> fset (state (ReadProg c Position r)) = fset r)
       \<and> fnamebuf (state (ReadProg c Position r)) = []"
proof -
  have "ReadProg c Position r = ReadInstr c Position (AHISTORY c) (r\<lparr>rd := l0 # l1 # l2 # l3 # s\<rparr>)"
    using assms(1-6) by (rule ReadProg_dispatch_instr)
  moreover have "rd (r\<lparr>rd := l0 # l1 # l2 # l3 # s\<rparr>) = l0 # l1 # l2 # l3 # s"
    and "ReadAddr c (r\<lparr>rd := l0 # l1 # l2 # l3 # s\<rparr>\<lparr>rd := s\<rparr>) = (a_from, None, r1)"
    using assms(7) by simp_all
  ultimately show ?thesis
    using ReadInstr_history [of "r\<lparr>rd := l0 # l1 # l2 # l3 # s\<rparr>" l0 l1 l2 l3 s c a_from r1 a_to r2 line _ Position]
      assms(8,9)
    by simp
qed

theorem ReadProg_history_import_witness:
  "ReadProg sample_constants sample_Position
     (NewReader ([1, 0, 77, 3] @ bytes_of_string ''/fmt'' @ 0 #
                 [3, 0, 5, 0, 0, 0, 0, 4, 255, 255, 255, 255]))
     = Returns ((Prog_zero sample_constants)\<lparr>Op := 1, Name := ''/fmt''\<rparr>) None
        ((NewReader [3, 0, 5, 0, 0, 0, 0, 4, 255, 255, 255, 255])
           \<lparr>syms := (\<lambda>_. [])(3 := ''/fmt''), fnamebuf := [''fmt'']\<rparr>)
   \<and> AHISTORY sample_constants = Uint16 [3, 0]
   \<and> AXXX sample_constants < AHISTORY sample_constants
   \<and> AHISTORY sample_constants < ALAST sample_constants
   \<and> AHISTORY sample_constants \<noteq> ANAME sample_constants
   \<and> AHISTORY sample_constants \<noteq> ASIGNAME sample_constants
   \<and> (5 :: int) = uint (Uint32 [5, 0, 0, 0])
   \<and> Offset (fst (ReadAddr sample_constants
         ((NewReader [4, 255, 255, 255, 255])
            \<lparr>syms := (\<lambda>_. [])(3 := ''/fmt''), fnamebuf := [''fmt'']\<rparr>))) = - 1
   \<and> imports_map (state (ReadProg sample_constants sample_Position
         ((NewReader [3, 0, 5, 0, 0, 0, 0, 4, 255, 255, 255, 255])
            \<lparr>syms := (\<lambda>_. [])(3 := ''/fmt''), fnamebuf := [''fmt'']\<rparr>))) 5 = Some ''fmt''
   \<and> dom (imports_map (state (ReadProg sample_constants sample_Position
         ((NewReader [3, 0, 5, 0, 0, 0, 0, 4, 255, 255, 255, 255])
            \<lparr>syms := (\<lambda>_. [])(3 := ''/fmt''), fnamebuf := [''fmt'']\<rparr>)))) = {5}
   \<and> fset (state (ReadProg sample_constants sample_Position
         ((NewReader [3, 0, 5, 0, 0, 0, 0, 4, 255, 255, 255, 255])
            \<lparr>syms := (\<lambda>_. [])(3 := ''/fmt''), fnamebuf := [''fmt'']\<rparr>))) = []
   \<and> fnamebuf (state (ReadProg sample_constants sample_Position
         ((NewReader [3, 0, 5, 0, 0, 0, 0, 4, 255, 255, 255, 255])
            \<lparr>syms := (\<lambda>_. [])(3 := ''/fmt''), fnamebuf := [''fmt'']\<rparr>))) = []"
proof -
  let ?c = sample_constants
  let ?st = "\<lambda>s. (NewReader s)\<lparr>syms := (\<lambda>_. [])(3 := ''/fmt''), fnamebuf := [''fmt'']\<rparr>"
  let ?r = "?st [3, 0, 5, 0, 0, 0, 0, 4, 255, 255, 255, 255]"
  let ?from = "(Addr_zero ?c)\<lparr>Type := 67, Index := 67\<rparr>"
  let ?to = "(Addr_zero ?c)\<lparr>Type := 67, Index := 67, Offset := - 1\<rparr>"
  have h1: "rd ?r = 3 # 0 # 5 # 0 # 0 # 0 # [0, 4, 255, 255, 255, 255]"
    by (simp add: NewReader_def)
  have h2: "AHISTORY ?c = Uint16 [3, 0]" "AXXX ?c < AHISTORY ?c" "AHISTORY ?c < ALAST ?c"
    "AHISTORY ?c \<noteq> ANAME ?c" "AHISTORY ?c \<noteq> ASIGNAME ?c"
    by (simp_all add: sample_constants_def Uint16_def)
  have h3: "ReadAddr ?c (?r\<lparr>rd := [0, 4, 255, 255, 255, 255]\<rparr>) = (?from, None, ?st [4, 255, 255, 255, 255])"
    by (simp add: run_defs)
  have h4: "ReadAddr ?c (?st [4, 255, 255, 255, 255]) = (?to, None, ?st [])"
    by (simp add: run_defs)
  have h5: "(5 :: int) = uint (Uint32 [5, 0, 0, 0])"
    by (simp add: Uint32_def)
  have o: "Offset ?to = - 1" by simp
  note t = ReadProg_history_import [OF h1 h2 h3 h4 h5, of sample_Position]
  have "imports_map (state (ReadProg ?c sample_Position ?r)) 5 = Some ''fmt''"
    and "dom (imports_map (state (ReadProg ?c sample_Position ?r))) = {5}"
    and "fset (state (ReadProg ?c sample_Position ?r)) = []"
    and "fnamebuf (state (ReadProg ?c sample_Position ?r)) = []"
    using t o by (simp_all add: NewReader_def Clean_def)
  with ReadProg_fmt_marker h2 h4 h5 o show ?thesis by simp
qed

subsection \<open>The symbol table\<close>

lemma ReadSym_byte: "ReadSym (r\<lparr>rd := k # s\<rparr>) = (syms r k, None, r\<lparr>rd := s\<rparr>)"
  by (simp add: ReadSym_def)

lemma addr_const_Sym: "Sym (fst (addr_const c tag st)) = Sym (fst st)"
  by (cases st) (simp add: addr_const_def split: prod.splits)

lemma addr_type_Sym: "Sym (fst (addr_type c tag st)) = Sym (fst st)"
  by (cases st) (simp add: addr_type_def split: prod.splits)

lemma addr_gotype_Sym: "Sym (fst (addr_gotype c tag st)) = Sym (fst st)"
  by (cases st) (simp add: addr_gotype_def split: prod.splits)

lemma addr_offset_consumes:
  assumes "length bs =
             (if tag AND T_OFFSET c \<noteq> 0 then (if tag AND T_64 c \<noteq> 0 then 8 else 4) else 0)"
  shows "\<exists>a'. addr_offset c tag (a, None, r\<lparr>rd := bs @ s\<rparr>) = (a', None, r\<lparr>rd := s\<rparr>)"
proof (cases "tag AND T_OFFSET c \<noteq> 0")
  case False
  with assms show ?thesis by (simp add: addr_offset_def)
next
  case off: True
  show ?thesis
  proof (cases "tag AND T_64 c \<noteq> 0")
    case True
    with off assms have "length bs = 8" by simp
    then have "read8 (bs @ s) = (Uint64 bs, None, s)"
      by (simp add: read8_def ReadFull_exact)
    with True off show ?thesis by (simp add: addr_offset_def)
  next
    case False
    with off assms have "length bs = 4" by simp
    then have "read4 (bs @ s) = (Uint32 bs, None, s)"
      by (simp add: read4_def ReadFull_exact)
    with False off show ?thesis by (simp add: addr_offset_def)
  qed
qed

text \<open>
  The symbol reference of an operand: the handle byte \<open>k\<close> comes after the index and
  scale \<open>idx\<close> and the offset \<open>bs\<close>, as far as the flags ask for them.
\<close>

lemma ReadAddr_Sym:
  assumes "tag AND T_SYM c \<noteq> 0"
    and "length idx = (if tag AND T_INDEX c \<noteq> 0 then 2 else 0)"
    and "length bs =
           (if tag AND T_OFFSET c \<noteq> 0 then (if tag AND T_64 c \<noteq> 0 then 8 else 4) else 0)"
    and "rd r = tag # idx @ bs @ k # s"
  shows "Sym (fst (ReadAddr c r)) = syms r k"
proof -
  let ?a0 = "(Addr_zero c)\<lparr>Type := D_NONE c, Index := D_NONE c, Scale := 0\<rparr>"
  obtain a1 where a1:
    "addr_index c tag (?a0, None, r\<lparr>rd := idx @ bs @ k # s\<rparr>) = (a1, None, r\<lparr>rd := bs @ k # s\<rparr>)"
    using addr_index_consumes [OF assms(2)] by blast
  obtain a2 where a2:
    "addr_offset c tag (a1, None, r\<lparr>rd := bs @ k # s\<rparr>) = (a2, None, r\<lparr>rd := k # s\<rparr>)"
    using addr_offset_consumes [OF assms(3)] by blast
  have a3: "addr_sym c tag (a2, None, r\<lparr>rd := k # s\<rparr>) = (a2\<lparr>Sym := syms r k\<rparr>, None, r\<lparr>rd := s\<rparr>)"
    using assms(1) by (simp add: addr_sym_def ReadSym_def)
  have "ReadAddr c r =
      addr_gotype c tag (addr_type c tag (addr_const c tag (a2\<lparr>Sym := syms r k\<rparr>, None, r\<lparr>rd := s\<rparr>)))"
    using assms(4) by (simp add: ReadAddr_def Let_def a1 a2 a3)
  then show ?thesis
    by (simp add: addr_const_Sym addr_type_Sym addr_gotype_Sym)
qed

lemma ReadProg_name_record_syms:
  assumes "rd r = b0 # b1 # sg @ typ # h # nm @ 0 # rest"
    and "op = Uint16 [b0, b1]"
    and "AXXX c < op" and "op < ALAST c"
    and "op = ANAME c \<or> op = ASIGNAME c"
    and "length sg = (if op = ASIGNAME c then 4 else 0)"
    and "0 \<notin> set nm"
  shows "syms (state (ReadProg c Position r)) = (syms r)(h := string_of_bytes nm)"
  unfolding ReadProg_name_record [OF assms] by (simp add: Let_def)

text \<open>
  Claim C9. A name declaration with handle \<open>h\<close> overwrites slot \<open>h\<close> of \<^verbatim>\<open>syms\<close>,
  whatever it held and whatever the kind, and changes no other slot. \<^verbatim>\<open>ReadSym\<close> on a
  handle byte returns the slot's contents at that moment with a \<^verbatim>\<open>nil\<close> error, so the
  name just declared is what a following \<^verbatim>\<open>ReadSym\<close> resolves to, and what the symbol
  reference of a following operand resolves to, for every flag byte with the symbol flag
  set, with or without index, scale and offset before the handle; a slot never written
  in a new reader holds the empty string.
\<close>

theorem symbol_table_register_resolve:
  assumes "rd r = b0 # b1 # sg @ typ # h # nm @ 0 # rest"
    and "op = Uint16 [b0, b1]"
    and "AXXX c < op" and "op < ALAST c"
    and "op = ANAME c \<or> op = ASIGNAME c"
    and "length sg = (if op = ASIGNAME c then 4 else 0)"
    and "0 \<notin> set nm"
  shows "syms (state (ReadProg c Position r)) = (syms r)(h := string_of_bytes nm)
       \<and> ReadSym ((state (ReadProg c Position r))\<lparr>rd := h # s\<rparr>) =
           (string_of_bytes nm, None, (state (ReadProg c Position r))\<lparr>rd := s\<rparr>)
       \<and> (tag AND T_SYM c \<noteq> 0
            \<and> length idx = (if tag AND T_INDEX c \<noteq> 0 then 2 else 0)
            \<and> length bs =
                (if tag AND T_OFFSET c \<noteq> 0 then (if tag AND T_64 c \<noteq> 0 then 8 else 4) else 0)
          \<longrightarrow>
            Sym (fst (ReadAddr c
              ((state (ReadProg c Position r))\<lparr>rd := tag # idx @ bs @ h # s\<rparr>))) =
              string_of_bytes nm)
       \<and> ReadSym (q\<lparr>rd := k # s\<rparr>) = (syms q k, None, q\<lparr>rd := s\<rparr>)
       \<and> syms (NewReader s) k = []"
proof -
  let ?r' = "state (ReadProg c Position r)"
  have reg: "syms ?r' = (syms r)(h := string_of_bytes nm)"
    using assms by (rule ReadProg_name_record_syms)
  have res: "ReadSym (?r'\<lparr>rd := h # s\<rparr>) = (string_of_bytes nm, None, ?r'\<lparr>rd := s\<rparr>)"
    by (simp add: ReadSym_byte reg)
  have opd: "Sym (fst (ReadAddr c (?r'\<lparr>rd := tag # idx @ bs @ h # s\<rparr>))) = string_of_bytes nm"
    if "tag AND T_SYM c \<noteq> 0"
      "length idx = (if tag AND T_INDEX c \<noteq> 0 then 2 else 0)"
      "length bs =
         (if tag AND T_OFFSET c \<noteq> 0 then (if tag AND T_64 c \<noteq> 0 then 8 else 4) else 0)"
    using ReadAddr_Sym [OF that, of "?r'\<lparr>rd := tag # idx @ bs @ h # s\<rparr>" h s] reg by simp
  show ?thesis
    using reg res opd by (simp add: ReadSym_byte NewReader_def)
qed

theorem symbol_table_register_resolve_witness:
  "state (ReadProg sample_constants sample_Position
       (NewReader ([1, 0, 70, 3] @ bytes_of_string ''foo'' @ 0 #
                   [2, 0, 9, 9, 9, 9, 71, 3] @ bytes_of_string ''bar'' @ 0 # [22, 1, 2, 0, 0, 0, 0, 3])))
     = (NewReader ([2, 0, 9, 9, 9, 9, 71, 3] @ bytes_of_string ''bar'' @ 0 # [22, 1, 2, 0, 0, 0, 0, 3]))
         \<lparr>syms := (\<lambda>_. [])(3 := ''foo'')\<rparr>
   \<and> (2 :: 16 word) = Uint16 [2, 0]
   \<and> AXXX sample_constants < 2 \<and> 2 < ALAST sample_constants \<and> 2 = ASIGNAME sample_constants
   \<and> 0 \<notin> set (bytes_of_string ''bar'')
   \<and> (22 :: byte) AND T_SYM sample_constants \<noteq> 0
   \<and> length [1, 2 :: byte] = (if (22 :: byte) AND T_INDEX sample_constants \<noteq> 0 then 2 else 0)
   \<and> length [0, 0, 0, 0 :: byte] =
        (if (22 :: byte) AND T_OFFSET sample_constants \<noteq> 0
         then (if (22 :: byte) AND T_64 sample_constants \<noteq> 0 then 8 else 4) else 0)
   \<and> fst (ReadSym (NewReader [3])) = []
   \<and> fst (ReadSym ((NewReader [3])\<lparr>syms := (\<lambda>_. [])(3 := ''foo'')\<rparr>)) = ''foo''
   \<and> fst (ReadSym ((state (ReadProg sample_constants sample_Position
        ((NewReader ([2, 0, 9, 9, 9, 9, 71, 3] @ bytes_of_string ''bar'' @ 0 # [22, 1, 2, 0, 0, 0, 0, 3]))
           \<lparr>syms := (\<lambda>_. [])(3 := ''foo'')\<rparr>)))\<lparr>rd := [3]\<rparr>)) = ''bar''
   \<and> Sym (fst (ReadAddr sample_constants ((state (ReadProg sample_constants sample_Position
        ((NewReader ([2, 0, 9, 9, 9, 9, 71, 3] @ bytes_of_string ''bar'' @ 0 # [22, 1, 2, 0, 0, 0, 0, 3]))
           \<lparr>syms := (\<lambda>_. [])(3 := ''foo'')\<rparr>)))\<lparr>rd := [22, 1, 2, 0, 0, 0, 0, 3]\<rparr>))) = ''bar''"
proof -
  let ?c = sample_constants
  let ?rec2 = "[2, 0, 9, 9, 9, 9, 71, 3] @ bytes_of_string ''bar'' @ 0 # [22, 1, 2, 0, 0, 0, 0, 3]"
  let ?r1 = "(NewReader ?rec2)\<lparr>syms := (\<lambda>_. [])(3 := ''foo'')\<rparr>"
  have nz: "0 \<notin> set (bytes_of_string ''foo'')" "0 \<notin> set (bytes_of_string ''bar'')"
    by (simp_all add: bytes_of_string_def)
  have first: "state (ReadProg ?c sample_Position
       (NewReader ([1, 0, 70, 3] @ bytes_of_string ''foo'' @ 0 # ?rec2))) = ?r1"
    using nz(1) ReadProg_name_record [of "NewReader ([1, 0, 70, 3] @ bytes_of_string ''foo'' @ 0 # ?rec2)"
        1 0 "[]" 70 3 "bytes_of_string ''foo''" ?rec2 1 ?c sample_Position]
    by (simp add: NewReader_def sample_constants_def Uint16_def Let_def)
  have h1: "rd ?r1 = 2 # 0 # [9, 9, 9, 9] @ 71 # 3 # bytes_of_string ''bar'' @ 0 # [22, 1, 2, 0, 0, 0, 0, 3]"
    by (simp add: NewReader_def)
  have h2: "(2 :: 16 word) = Uint16 [2, 0]" "AXXX ?c < 2" "2 < ALAST ?c"
    "2 = ANAME ?c \<or> 2 = ASIGNAME ?c"
    "length [9, 9, 9, 9 :: byte] = (if (2 :: 16 word) = ASIGNAME ?c then 4 else 0)"
    by (simp_all add: sample_constants_def Uint16_def)
  have fl: "(22 :: byte) AND T_SYM ?c \<noteq> 0"
    "length [1, 2 :: byte] = (if (22 :: byte) AND T_INDEX ?c \<noteq> 0 then 2 else 0)"
    "length [0, 0, 0, 0 :: byte] =
       (if (22 :: byte) AND T_OFFSET ?c \<noteq> 0
        then (if (22 :: byte) AND T_64 ?c \<noteq> 0 then 8 else 4) else 0)"
    "2 = ASIGNAME ?c"
    by (simp_all add: sample_constants_def)
  note t = symbol_table_register_resolve [OF h1 h2 nz(2),
      where Position = sample_Position and s = "[]" and tag = 22 and idx = "[1, 2]"
        and bs = "[0, 0, 0, 0]" and q = "NewReader []" and k = 3]
  have a: "fst (ReadSym (NewReader [3])) = []"
    using t by (simp add: NewReader_def)
  have b: "fst (ReadSym ((NewReader [3])\<lparr>syms := (\<lambda>_. [])(3 := ''foo'')\<rparr>)) = ''foo''"
    by (simp add: ReadSym_def NewReader_def)
  have c: "fst (ReadSym ((state (ReadProg ?c sample_Position ?r1))\<lparr>rd := [3]\<rparr>)) = ''bar''"
    using t by simp
  have d: "Sym (fst (ReadAddr ?c ((state (ReadProg ?c sample_Position ?r1))\<lparr>rd := [22, 1, 2, 0, 0, 0, 0, 3]\<rparr>))) = ''bar''"
    using t fl by simp
  from first h2 fl nz a b c d show ?thesis by simp
qed

subsection \<open>The file name assembler\<close>








subsection \<open>Enter and Exit\<close>

text \<open>No statement of \<^verbatim>\<open>ReadProg\<close> assigns the field \<^verbatim>\<open>r.fname\<close>.\<close>

lemma ReadName_frame:
  "fname (state (ReadName c op r :: 'pos outcome)) = fname r
   \<and> fset (state (ReadName c op r :: 'pos outcome)) = fset r"
proof -
  obtain sig e0 s0 where 0: "(if op = ASIGNAME c then read4 (rd r) else (0, None, rd r)) = (sig, e0, s0)"
    by (cases "if op = ASIGNAME c then read4 (rd r) else (0, None, rd r)") auto
  obtain t e1 s1 where 1: "ReadByte s0 = (t, e1, s1)"
    by (cases "ReadByte s0") auto
  obtain h e2 s2 where 2: "ReadByte s1 = (h, e2, s2)"
    by (cases "ReadByte s1") auto
  obtain bname e3 s3 where 3: "ReadString 0 s2 = (bname, e3, s3)"
    by (cases "ReadString 0 s2") auto
  show ?thesis
    unfolding ReadName_def 0 by (simp add: 1 2 3 Let_def)
qed

lemma ReadInstr_fname: "fname (state (ReadInstr c Position op r)) = fname r"
proof -
  obtain line e s where l: "read4 (rd r) = (line, e, s)"
    by (cases "read4 (rd r)") auto
  obtain a1 e1 r1 where a1: "ReadAddr c (r\<lparr>rd := s\<rparr>) = (a1, e1, r1)"
    by (cases "ReadAddr c (r\<lparr>rd := s\<rparr>)") auto
  obtain a2 e2 r2 where a2: "ReadAddr c r1 = (a2, e2, r2)"
    by (cases "ReadAddr c r1") auto
  have "fname r1 = fname r"
    using ReadAddr_frame [OF a1] by (metis Reader.select_convs(5) Reader.surjective Reader.update_convs(1))
  moreover have "fname r2 = fname r1"
    using ReadAddr_frame [OF a2] by (metis Reader.select_convs(5) Reader.surjective Reader.update_convs(1))
  ultimately show ?thesis
    by (simp add: ReadInstr_def l a1 a2 Let_def)
qed

lemma ReadInstr_fset:
  assumes "fname r = []"
  shows "fset (state (ReadInstr c Position op r)) = fset r
       \<or> (\<exists>line. fset (state (ReadInstr c Position op r)) = fset r @ [Exit line])"
proof -
  obtain line e s where l: "read4 (rd r) = (line, e, s)"
    by (cases "read4 (rd r)") auto
  obtain a1 e1 r1 where a1: "ReadAddr c (r\<lparr>rd := s\<rparr>) = (a1, e1, r1)"
    by (cases "ReadAddr c (r\<lparr>rd := s\<rparr>)") auto
  obtain a2 e2 r2 where a2: "ReadAddr c r1 = (a2, e2, r2)"
    by (cases "ReadAddr c r1") auto
  have "r1 = r\<lparr>rd := s\<rparr>\<lparr>rd := rd r1\<rparr>"
    using a1 by (rule ReadAddr_frame)
  moreover have "r2 = r1\<lparr>rd := rd r2\<rparr>"
    using a2 by (rule ReadAddr_frame)
  ultimately have r2: "r2 = r\<lparr>rd := rd r2\<rparr>"
    by (metis Reader.update_convs(1) Reader.surjective)
  have f: "fname r2 = []" "fset r2 = fset r"
    using assms by (subst r2, simp)+
  show ?thesis
    by (simp add: ReadInstr_def l a1 a2 Let_def f)
qed

lemma ReadProg_fname: "fname (state (ReadProg c Position r)) = fname r"
proof -
  obtain op e s where o: "read2 (rd r) = (op, e, s)"
    by (cases "read2 (rd r)") auto
  show ?thesis
    by (simp add: ReadProg_def o Let_def ReadName_frame ReadInstr_fname)
qed

lemma ReadProg_fset:
  assumes "fname r = []"
  shows "fset (state (ReadProg c Position r)) = fset r
       \<or> (\<exists>line. fset (state (ReadProg c Position r)) = fset r @ [Exit line])"
proof -
  obtain op e s where o: "read2 (rd r) = (op, e, s)"
    by (cases "read2 (rd r)") auto
  have "fname (r\<lparr>rd := s\<rparr>) = []" using assms by simp
  from ReadInstr_fset [OF this, of c Position op] show ?thesis
    by (simp add: ReadProg_def o Let_def ReadName_frame)
qed

text \<open>
  Claim C1 does not hold of the code. The history case tests the field \<^verbatim>\<open>r.fname\<close>,
  while the name joined from the file markers is the local variable \<^verbatim>\<open>fname\<close>. After
  any number of calls of \<^verbatim>\<open>ReadProg\<close> on a new reader, on any stream, \<^verbatim>\<open>r.fname\<close> is
  still empty and every call made on the file set is an \<^verbatim>\<open>Exit\<close>: the \<^verbatim>\<open>Enter\<close> branch
  is never taken. A file marker \<^verbatim>\<open>/main.go\<close> followed by a history record of line 1
  with offset 0 calls \<^verbatim>\<open>Exit(1)\<close>.
\<close>

theorem history_never_enters:
  "fname (((\<lambda>r. state (ReadProg c Position r)) ^^ n) (NewReader s)) = []
   \<and> (\<forall>x \<in> set (fset (((\<lambda>r. state (ReadProg c Position r)) ^^ n) (NewReader s))).
         \<exists>line. x = Exit line)"
proof (induction n)
  case 0
  show ?case by (simp add: NewReader_def)
next
  case (Suc n)
  let ?r = "((\<lambda>r. state (ReadProg c Position r)) ^^ n) (NewReader s)"
  from Suc have e: "fname ?r = []" and x: "\<forall>x \<in> set (fset ?r). \<exists>line. x = Exit line"
    by simp_all
  have "fname (state (ReadProg c Position ?r)) = []"
    using e by (simp add: ReadProg_fname)
  moreover have "\<forall>x \<in> set (fset (state (ReadProg c Position ?r))). \<exists>line. x = Exit line"
    using ReadProg_fset [OF e, of c Position] x by auto
  ultimately show ?case by simp
qed

theorem history_never_enters_witness:
  "fname (state (ReadProg sample_constants sample_Position
     (state (ReadProg sample_constants sample_Position
        (NewReader ([1, 0, 77, 3] @ bytes_of_string ''/main.go'' @ 0 # [3, 0, 1, 0, 0, 0, 0, 0])))))) = []
   \<and> fset (state (ReadProg sample_constants sample_Position
     (state (ReadProg sample_constants sample_Position
        (NewReader ([1, 0, 77, 3] @ bytes_of_string ''/main.go'' @ 0 # [3, 0, 1, 0, 0, 0, 0, 0]))))))
      = [Exit 1]"
proof -
  let ?s = "[1, 0, 77, 3] @ bytes_of_string ''/main.go'' @ 0 # [3, 0, 1, 0, 0, 0, 0, 0]"
  let ?r2 = "state (ReadProg sample_constants sample_Position
     (state (ReadProg sample_constants sample_Position (NewReader ?s))))"
  have t: "fname ?r2 = [] \<and> (\<forall>x \<in> set (fset ?r2). \<exists>line. x = Exit line)"
    using history_never_enters [where c = sample_constants and Position = sample_Position and n = 2 and s = ?s]
    by (simp add: numeral_2_eq_2)
  have "fset ?r2 = [Exit 1]"
    by (simp add: run_defs not_le)
  with t show ?thesis by simp
qed

subsection \<open>Which error is returned\<close>

lemma ReadAddr_at_end:
  "ReadAddr c (r\<lparr>rd := []\<rparr>) =
     ((Addr_zero c)\<lparr>Type := D_NONE c, Index := D_NONE c, Scale := 0\<rparr>, Some EOF, r\<lparr>rd := []\<rparr>)"
  by (simp add: ReadAddr_def addr_index_def addr_offset_def addr_sym_def)

text \<open>
  Claim C5 does not hold of the code for the fields \<^verbatim>\<open>from address\<close> and
  \<^verbatim>\<open>to address\<close>. When the stream ends right after the line number, reading the
  \<^verbatim>\<open>from\<close> operand fails with \<^verbatim>\<open>io.EOF\<close>, and \<^verbatim>\<open>ReadProg\<close> returns an \<^verbatim>\<open>errIO\<close>
  for \<^verbatim>\<open>from address\<close> whose cause is the error of the line number, which is \<^verbatim>\<open>nil\<close>.
\<close>

theorem ReadProg_from_address_error_without_cause:
  assumes "rd r = [b0, b1, l0, l1, l2, l3]"
    and "op = Uint16 [b0, b1]"
    and "AXXX c < op" and "op < ALAST c"
    and "op \<noteq> ANAME c" and "op \<noteq> ASIGNAME c"
  shows "fst (snd (ReadAddr c (r\<lparr>rd := []\<rparr>))) = Some EOF
       \<and> ReadProg c Position r =
           Returns (Prog_zero c) (Some (errIO ''from address'' None)) (r\<lparr>rd := []\<rparr>)"
proof -
  have "ReadProg c Position r = ReadInstr c Position op (r\<lparr>rd := [l0, l1, l2, l3]\<rparr>)"
    using assms by (rule ReadProg_dispatch_instr)
  also have "\<dots> = Returns (Prog_zero c) (Some (errIO ''from address'' None)) (r\<lparr>rd := []\<rparr>)"
    using ReadAddr_at_end [of c r]
    by (simp add: ReadInstr_def read4_def ReadFull_def)
  finally show ?thesis
    by (simp add: ReadAddr_at_end)
qed

theorem ReadProg_from_address_error_without_cause_witness:
  "rd (NewReader [4, 0, 7, 0, 0, 0]) = [4, 0, 7, 0, 0, 0]
   \<and> (4 :: 16 word) = Uint16 [4, 0]
   \<and> AXXX sample_constants < 4 \<and> 4 < ALAST sample_constants
   \<and> 4 \<noteq> ANAME sample_constants \<and> 4 \<noteq> ASIGNAME sample_constants
   \<and> fst (snd (ReadAddr sample_constants (NewReader []))) = Some EOF
   \<and> ReadProg sample_constants sample_Position (NewReader [4, 0, 7, 0, 0, 0]) =
       Returns (Prog_zero sample_constants) (Some (errIO ''from address'' None)) (NewReader [])
   \<and> fst (snd (ReadAddr sample_constants (NewReader [4, 1]))) = Some ErrUnexpectedEOF
   \<and> ReadProg sample_constants sample_Position (NewReader [4, 0, 7, 0, 0, 0, 0, 4, 1]) =
       Returns (Prog_zero sample_constants) (Some (errIO ''to address'' None)) (NewReader [])"
proof -
  have "fst (snd (ReadAddr sample_constants (NewReader [4, 1]))) = Some ErrUnexpectedEOF"
    by (simp add: run_defs)
  moreover have "ReadProg sample_constants sample_Position (NewReader [4, 0, 7, 0, 0, 0, 0, 4, 1]) =
       Returns (Prog_zero sample_constants) (Some (errIO ''to address'' None)) (NewReader [])"
    by (simp add: run_defs not_le)
  ultimately show ?thesis
    using ReadProg_from_address_error_without_cause
          [of "NewReader [4, 0, 7, 0, 0, 0]" 4 0 7 0 0 0 4 sample_constants sample_Position]
    by (simp add: NewReader_def Uint16_def sample_constants_def)
qed

text \<open>
  Claim C4 does not hold of the code. \<^verbatim>\<open>ReadAddr\<close> reads on after a failed read and
  assigns \<open>err\<close> again: with the offset and symbol flags set and two bytes left, the read
  of the offset fails with \<^verbatim>\<open>io.ErrUnexpectedEOF\<close>, the read of the symbol after it
  with \<^verbatim>\<open>io.EOF\<close>, and \<^verbatim>\<open>io.EOF\<close>, the last error, is returned, with the offset filled
  from the two bytes.
\<close>

theorem ReadAddr_returns_last_error:
  assumes "tag AND T_INDEX c = 0" and "tag AND T_OFFSET c \<noteq> 0" and "tag AND T_64 c = 0"
    and "tag AND T_SYM c \<noteq> 0"
    and "rd r = [tag, x, y]"
  shows "fst (snd (addr_offset c tag (a, None, r\<lparr>rd := [x, y]\<rparr>))) = Some ErrUnexpectedEOF
       \<and> fst (snd (ReadAddr c r)) = Some EOF
       \<and> Offset (fst (ReadAddr c r)) = scast (Uint32 [x, y, 0, 0])"
  using assms
  by (simp add: ReadAddr_def addr_index_def addr_offset_def addr_sym_def ReadSym_def
      read4_def ReadFull_def numeral_2_eq_2)

theorem ReadAddr_returns_last_error_witness:
  "(20 :: byte) AND T_INDEX sample_constants = 0 \<and> (20 :: byte) AND T_OFFSET sample_constants \<noteq> 0
   \<and> (20 :: byte) AND T_64 sample_constants = 0 \<and> (20 :: byte) AND T_SYM sample_constants \<noteq> 0
   \<and> rd (NewReader [20, 1, 2]) = [20, 1, 2]
   \<and> read4 [1, 2] = (513, Some ErrUnexpectedEOF, [])
   \<and> fst (snd (addr_offset sample_constants 20
         (Addr_zero sample_constants, None, (NewReader [20, 1, 2])\<lparr>rd := [1, 2]\<rparr>)))
       = Some ErrUnexpectedEOF
   \<and> fst (snd (ReadAddr sample_constants (NewReader [20, 1, 2]))) = Some EOF
   \<and> Offset (fst (ReadAddr sample_constants (NewReader [20, 1, 2]))) = 513"
  using ReadAddr_returns_last_error
          [of 20 sample_constants "NewReader [20, 1, 2]" 1 2 "Addr_zero sample_constants"]
  by (simp add: NewReader_def sample_constants_def read4_def ReadFull_def Uint32_def)

end
